theory Spec2Isabelle
  imports Main "HOL-Library.Word"
begin

unbundle bit_operations_syntax

section \<open>Python values and exceptions\<close>

text \<open>
  The module \<^verbatim>\<open>Backend/db.py\<close> is dynamically typed: keyword arguments, column values and
  the dictionaries built by the serializers hold arbitrary Python values. A Python \<^verbatim>\<open>str\<close>
  is represented by its UTF-8 bytes, a \<^verbatim>\<open>bytes\<close> object by its bytes; both are character
  lists, told apart by the constructor. A dictionary literal with string keys is an
  association list in the order of the literal.
\<close>

type_synonym bytes = "char list"

datatype pyval =
    PNone
  | PBool bool
  | PInt int
  | PStr string
  | PBytes bytes
  | PList "pyval list"
  | PTuple "pyval list"
  | PDict "(string \<times> pyval) list"

text \<open>
  The exceptions that the statements of the module can raise. \<open>ValidationError\<close> is the
  name the specification uses for a rejected creation request; no statement of
  \<^verbatim>\<open>db.py\<close> raises it.
\<close>

datatype error = TypeError | AttributeError | ValueError | UnicodeDecodeError | ValidationError

text \<open>\<^verbatim>\<open>kwargs.get(key)\<close>: the value stored under the key, \<^verbatim>\<open>None\<close> when the key is absent.\<close>

definition kwargs_get :: "(string \<rightharpoonup> pyval) \<Rightarrow> string \<Rightarrow> pyval" where
  "kwargs_get kwargs key = (case kwargs key of None \<Rightarrow> PNone | Some v \<Rightarrow> v)"

text \<open>
  \<^verbatim>\<open>x.encode("utf8")\<close>: only \<^verbatim>\<open>str\<close> has the method; on any other value the attribute
  lookup raises \<^verbatim>\<open>AttributeError\<close>.
\<close>

fun encode_utf8 :: "pyval \<Rightarrow> error + pyval" where
  "encode_utf8 (PStr s) = Inr (PBytes s)"
| "encode_utf8 v = Inl AttributeError"

text \<open>Well-formed UTF-8 (no overlong forms, no surrogates, at most U+10FFFF).\<close>

fun utf8_valid :: "nat list \<Rightarrow> bool" where
  "utf8_valid [] = True"
| "utf8_valid (a # bs) =
     (if a < 0x80 then utf8_valid bs
      else if 0xC2 \<le> a \<and> a \<le> 0xDF then
        (case bs of
           b # r \<Rightarrow> 0x80 \<le> b \<and> b \<le> 0xBF \<and> utf8_valid r
         | _ \<Rightarrow> False)
      else if 0xE0 \<le> a \<and> a \<le> 0xEF then
        (case bs of
           b # c # r \<Rightarrow>
             (if a = 0xE0 then 0xA0 else 0x80) \<le> b \<and> b \<le> (if a = 0xED then 0x9F else 0xBF)
             \<and> 0x80 \<le> c \<and> c \<le> 0xBF \<and> utf8_valid r
         | _ \<Rightarrow> False)
      else if 0xF0 \<le> a \<and> a \<le> 0xF4 then
        (case bs of
           b # c # d # r \<Rightarrow>
             (if a = 0xF0 then 0x90 else 0x80) \<le> b \<and> b \<le> (if a = 0xF4 then 0x8F else 0xBF)
             \<and> 0x80 \<le> c \<and> c \<le> 0xBF \<and> 0x80 \<le> d \<and> d \<le> 0xBF \<and> utf8_valid r
         | _ \<Rightarrow> False)
      else False)"

text \<open>
  \<^verbatim>\<open>x.decode("utf8")\<close>: only \<^verbatim>\<open>bytes\<close> has the method; ill-formed input raises
  \<^verbatim>\<open>UnicodeDecodeError\<close>.
\<close>

fun decode_utf8 :: "pyval \<Rightarrow> error + pyval" where
  "decode_utf8 (PBytes b) =
     (if utf8_valid (map of_char b) then Inr (PStr b) else Inl UnicodeDecodeError)"
| "decode_utf8 v = Inl AttributeError"

text \<open>
  \<^verbatim>\<open>s.split('\n')\<close> on a \<^verbatim>\<open>str\<close>: the pieces between the separators, one more piece than
  there are separators (so the empty string gives one empty piece).
\<close>

definition newline :: char where
  "newline = CHR 0x0A"

fun split_on :: "char \<Rightarrow> string \<Rightarrow> string list" where
  "split_on sep [] = [[]]"
| "split_on sep (c # cs) =
     (if c = sep then [] # split_on sep cs
      else (case split_on sep cs of
              w # ws \<Rightarrow> (c # w) # ws
            | [] \<Rightarrow> [[c]]))"

text \<open>
  The method call \<^verbatim>\<open>x.split('\n')\<close> on an arbitrary value: \<^verbatim>\<open>bytes.split\<close> rejects a
  \<^verbatim>\<open>str\<close> separator with \<^verbatim>\<open>TypeError\<close>, the other types have no such attribute.
\<close>

fun split_newline :: "pyval \<Rightarrow> error + pyval" where
  "split_newline (PStr s) = Inr (PList (map PStr (split_on newline s)))"
| "split_newline (PBytes b) = Inl TypeError"
| "split_newline v = Inl AttributeError"

fun isinstance_list :: "pyval \<Rightarrow> bool" where
  "isinstance_list (PList xs) = True"
| "isinstance_list v = False"

text \<open>
  A list comprehension \<^verbatim>\<open>[f(x) for x in xs]\<close>: the elements are computed from left to
  right and the first exception ends the comprehension.
\<close>

fun comprehension :: "('a \<Rightarrow> error + 'b) \<Rightarrow> 'a list \<Rightarrow> error + 'b list" where
  "comprehension f [] = Inr []"
| "comprehension f (x # xs) =
     (case f x of
        Inl err \<Rightarrow> Inl err
      | Inr y \<Rightarrow> (case comprehension f xs of
                    Inl err \<Rightarrow> Inl err
                  | Inr ys \<Rightarrow> Inr (y # ys)))"

section \<open>The libraries the module calls\<close>

subsection \<open>\<^verbatim>\<open>os.urandom\<close> and \<^verbatim>\<open>datetime\<close>\<close>

text \<open>
  The operating system's random source is an unbounded sequence of bytes;
  \<^verbatim>\<open>os.urandom(n)\<close> returns the next \<open>n\<close> of them. The sequence is threaded through every
  function that draws from it.
\<close>

type_synonym entropy = "nat \<Rightarrow> char"

definition urandom :: "nat \<Rightarrow> entropy \<Rightarrow> bytes \<times> entropy" where
  "urandom n e = (map e [0..<n], \<lambda>i. e (i + n))"

text \<open>
  A \<^verbatim>\<open>datetime\<close> is a count of microseconds, a \<^verbatim>\<open>timedelta\<close> a difference of two. The
  reading of \<^verbatim>\<open>datetime.datetime.now()\<close> is an argument of each function that takes one.
  The upper end of Python's datetime range (year 9999) is not part of the model.
\<close>

type_synonym datetime = int

definition timedelta_days :: "int \<Rightarrow> int" where
  "timedelta_days d = d * 86400000000"

subsection \<open>\<^verbatim>\<open>hashlib.sha1\<close>\<close>

text \<open>
  SHA-1 as in FIPS 180-4, on 32-bit words kept as integers with the reduction modulo
  \<open>2 ^ 32\<close> written out (\<open>u32\<close>). \<^verbatim>\<open>hexdigest()\<close> prints the five state words in lower-case
  hexadecimal.
\<close>

definition u32 :: "int \<Rightarrow> int" where
  "u32 x = take_bit 32 x"

definition rotl32 :: "nat \<Rightarrow> int \<Rightarrow> int" where
  "rotl32 n x = u32 (push_bit n x) OR drop_bit (32 - n) x"

definition be_bytes :: "nat \<Rightarrow> int \<Rightarrow> bytes" where
  "be_bytes k v = map (\<lambda>i. char_of (drop_bit (8 * (k - 1 - i)) v)) [0..<k]"

definition be_word :: "bytes \<Rightarrow> int" where
  "be_word bs = fold (\<lambda>c w. push_bit 8 w OR of_char c) bs 0"

definition sha1_pad :: "bytes \<Rightarrow> bytes" where
  "sha1_pad m = m @ [char_of (128::nat)]
     @ replicate ((119 - length m mod 64) mod 64) (char_of (0::nat))
     @ be_bytes 8 (8 * int (length m))"

primrec chunks :: "nat \<Rightarrow> nat \<Rightarrow> 'a list \<Rightarrow> 'a list list" where
  "chunks 0 n xs = []"
| "chunks (Suc k) n xs = take n xs # chunks k n (drop n xs)"

definition sha1_schedule :: "bytes \<Rightarrow> int list" where
  "sha1_schedule block =
     fold (\<lambda>i w. w @ [rotl32 1 (w ! (i - 3) XOR w ! (i - 8) XOR w ! (i - 14) XOR w ! (i - 16))])
       [16..<80] (map be_word (chunks 16 4 block))"

type_synonym sha1_state = "int \<times> int \<times> int \<times> int \<times> int"

definition sha1_round :: "int list \<Rightarrow> nat \<Rightarrow> sha1_state \<Rightarrow> sha1_state" where
  "sha1_round w i s = (case s of (a, b, c, d, e) \<Rightarrow>
     (let (f, k) =
        (if i < 20 then ((b AND c) OR (u32 (NOT b) AND d), 0x5A827999)
         else if i < 40 then (b XOR c XOR d, 0x6ED9EBA1)
         else if i < 60 then ((b AND c) OR (b AND d) OR (c AND d), 0x8F1BBCDC)
         else (b XOR c XOR d, 0xCA62C1D6))
      in (u32 (rotl32 5 a + f + e + k + w ! i), a, rotl32 30 b, c, d)))"

definition sha1_block :: "sha1_state \<Rightarrow> bytes \<Rightarrow> sha1_state" where
  "sha1_block h block = (case h of (h0, h1, h2, h3, h4) \<Rightarrow>
     (case fold (sha1_round (sha1_schedule block)) [0..<80] h of (a, b, c, d, e) \<Rightarrow>
        (u32 (h0 + a), u32 (h1 + b), u32 (h2 + c), u32 (h3 + d), u32 (h4 + e))))"

definition sha1 :: "bytes \<Rightarrow> sha1_state" where
  "sha1 m = (let p = sha1_pad m in
     foldl sha1_block (0x67452301, 0xEFCDAB89, 0x98BADCFE, 0x10325476, 0xC3D2E1F0)
       (chunks (length p div 64) 64 p))"

definition hex_digit :: "nat \<Rightarrow> char" where
  "hex_digit n = ''0123456789abcdef'' ! n"

definition hex32 :: "int \<Rightarrow> string" where
  "hex32 w = map (\<lambda>i. hex_digit (nat (drop_bit (4 * (7 - i)) w AND 15))) [0..<8]"

definition sha1_hexdigest :: "bytes \<Rightarrow> string" where
  "sha1_hexdigest m = (case sha1 m of (h0, h1, h2, h3, h4) \<Rightarrow>
     hex32 h0 @ hex32 h1 @ hex32 h2 @ hex32 h3 @ hex32 h4)"

subsection \<open>\<^verbatim>\<open>bcrypt\<close>\<close>

text \<open>
  The three functions of the \<^verbatim>\<open>bcrypt\<close> package that the module calls, as Python
  callables: each takes the list of positional arguments of the call and returns a value
  or raises. \<^verbatim>\<open>gensalt\<close> takes its keyword argument \<^verbatim>\<open>rounds\<close> and draws from the random
  source.
\<close>

record bcrypt_module =
  hashpw :: "pyval list \<Rightarrow> error + pyval"
  gensalt :: "nat \<Rightarrow> entropy \<Rightarrow> error + pyval \<times> entropy"
  checkpw :: "pyval list \<Rightarrow> error + pyval"

text \<open>
  The package as published: \<^verbatim>\<open>hashpw(password, salt)\<close> and
  \<^verbatim>\<open>checkpw(password, hashed_password)\<close> take exactly two \<^verbatim>\<open>bytes\<close> arguments; a call with
  another number of arguments, or with an argument that is not \<^verbatim>\<open>bytes\<close>, raises
  \<^verbatim>\<open>TypeError\<close> before anything is hashed, and a malformed salt raises \<^verbatim>\<open>ValueError\<close>.
  \<^verbatim>\<open>gensalt(rounds)\<close> accepts 4 to 31 rounds and encodes 16 random bytes. The Blowfish key
  derivation \<open>kdf\<close> (\<open>None\<close> on a malformed salt) and the salt encoding \<open>enc\<close> are parameters.
\<close>

definition bcrypt_hashpw :: "(bytes \<Rightarrow> bytes \<Rightarrow> bytes option) \<Rightarrow> pyval list \<Rightarrow> error + pyval" where
  "bcrypt_hashpw kdf args =
     (case args of
        [PBytes password, PBytes salt] \<Rightarrow>
          (case kdf password salt of
             None \<Rightarrow> Inl ValueError
           | Some h \<Rightarrow> Inr (PBytes h))
      | _ \<Rightarrow> Inl TypeError)"

definition bcrypt_checkpw :: "(bytes \<Rightarrow> bytes \<Rightarrow> bytes option) \<Rightarrow> pyval list \<Rightarrow> error + pyval" where
  "bcrypt_checkpw kdf args =
     (case args of
        [PBytes password, PBytes hashed_password] \<Rightarrow>
          (case kdf password hashed_password of
             None \<Rightarrow> Inl ValueError
           | Some h \<Rightarrow> Inr (PBool (h = hashed_password)))
      | _ \<Rightarrow> Inl TypeError)"

definition bcrypt_gensalt ::
  "(nat \<Rightarrow> bytes \<Rightarrow> bytes) \<Rightarrow> nat \<Rightarrow> entropy \<Rightarrow> error + pyval \<times> entropy" where
  "bcrypt_gensalt enc rounds e =
     (if rounds < 4 \<or> 31 < rounds then Inl ValueError
      else (case urandom 16 e of (salt, e') \<Rightarrow> Inr (PBytes (enc rounds salt), e')))"

definition bcrypt ::
  "(bytes \<Rightarrow> bytes \<Rightarrow> bytes option) \<Rightarrow> (nat \<Rightarrow> bytes \<Rightarrow> bytes) \<Rightarrow> bcrypt_module" where
  "bcrypt kdf enc =
     \<lparr>hashpw = bcrypt_hashpw kdf, gensalt = bcrypt_gensalt enc, checkpw = bcrypt_checkpw kdf\<rparr>"

section \<open>The models of \<^verbatim>\<open>db.py\<close>\<close>

text \<open>
  Each model class is a record of the attributes its methods read or write. A field whose
  name another class or HOL itself already uses carries the class name as a suffix. The
  session fields hold what \<^verbatim>\<open>renew_session\<close>, their only writer, stores in them: two
  strings and a datetime. The other columns hold whatever \<^verbatim>\<open>kwargs.get\<close> or the database
  put there.
\<close>

record recipe =
  id_Recipe :: pyval
  title :: pyval
  summary :: pyval
  ingredients :: pyval
  instructions :: pyval
  image_url_Recipe :: pyval

text \<open>The relationship \<^verbatim>\<open>saved.recipe\<close> is \<^verbatim>\<open>None\<close> when the foreign key is null.\<close>

record saved_recipe =
  id_SavedRecipe :: pyval
  user_id :: pyval
  recipe_id :: pyval
  recipe :: "recipe option"

record post =
  id_Post :: pyval
  title_Post :: pyval
  description :: pyval
  user_id_Post :: pyval
  group_id :: pyval

record user =
  id_User :: pyval
  first_name :: pyval
  last_name :: pyval
  username :: pyval
  password_digest :: pyval
  image_url :: pyval
  session_token :: string
  session_expiration :: datetime
  update_token :: string
  saved_recipes :: "saved_recipe list"
  posts :: "post list"

subsection \<open>Recipe\<close>

text \<open>\<^verbatim>\<open>Recipe.__init__\<close> (lines 122-129).\<close>

definition Recipe_init :: "(string \<rightharpoonup> pyval) \<Rightarrow> recipe \<Rightarrow> recipe" where
  "Recipe_init kwargs self =
     self\<lparr>title := kwargs_get kwargs ''title'',
          summary := kwargs_get kwargs ''summary'',
          ingredients := kwargs_get kwargs ''ingredients'',
          instructions := kwargs_get kwargs ''instructions''\<rparr>"

text \<open>
  \<^verbatim>\<open>Recipe.serialize\<close> (lines 131-141). The entries of the dictionary literal are evaluated
  in order, so an exception for the ingredients comes before one for the instructions.
\<close>

definition Recipe_serialize :: "recipe \<Rightarrow> error + pyval" where
  "Recipe_serialize self =
     (case (if isinstance_list (ingredients self) then Inr (ingredients self)
            else split_newline (ingredients self)) of
        Inl err \<Rightarrow> Inl err
      | Inr ingr \<Rightarrow>
          (case (if isinstance_list (instructions self) then Inr (instructions self)
                 else split_newline (instructions self)) of
             Inl err \<Rightarrow> Inl err
           | Inr instr \<Rightarrow>
               Inr (PDict
                 [(''id'', id_Recipe self),
                  (''title'', title self),
                  (''summary'', summary self),
                  (''ingredients'', ingr),
                  (''instructions'', instr)])))"

subsection \<open>Post and SavedRecipe\<close>

text \<open>
  Class \<^verbatim>\<open>Post\<close> (lines 178-188) declares columns and relationships and no method: the
  call \<^verbatim>\<open>post.serialize()\<close> in \<^verbatim>\<open>User.serialize\<close> fails at the attribute lookup.
\<close>

definition Post_call_serialize :: "post \<Rightarrow> error + pyval" where
  "Post_call_serialize p = Inl AttributeError"

text \<open>\<^verbatim>\<open>saved.recipe.serialize()\<close>: \<^verbatim>\<open>None\<close> has no attribute \<^verbatim>\<open>serialize\<close>.\<close>

definition saved_recipe_serialize :: "saved_recipe \<Rightarrow> error + pyval" where
  "saved_recipe_serialize saved =
     (case recipe saved of
        None \<Rightarrow> Inl AttributeError
      | Some r \<Rightarrow> Recipe_serialize r)"

subsection \<open>User\<close>

text \<open>\<^verbatim>\<open>User._urlsafe_base_64\<close> (lines 49-53); it does not read \<^verbatim>\<open>self\<close>.\<close>

definition urlsafe_base_64 :: "entropy \<Rightarrow> string \<times> entropy" where
  "urlsafe_base_64 e = (case urandom 64 e of (b, e') \<Rightarrow> (sha1_hexdigest b, e'))"

text \<open>\<^verbatim>\<open>User.renew_session\<close> (lines 55-64): three assignments, in this order.\<close>

definition renew_session :: "datetime \<Rightarrow> user \<Rightarrow> entropy \<Rightarrow> user \<times> entropy" where
  "renew_session now self e =
     (case urlsafe_base_64 e of (t1, e1) \<Rightarrow>
        (let self = self\<lparr>session_token := t1\<rparr>;
             self = self\<lparr>session_expiration := now + timedelta_days 1\<rparr>
         in (case urlsafe_base_64 e1 of (t2, e2) \<Rightarrow>
               (self\<lparr>update_token := t2\<rparr>, e2))))"

text \<open>
  \<^verbatim>\<open>User.__init__\<close> (lines 39-47). \<open>self\<close> is the object being initialised. Line 46 is
  \<^verbatim>\<open>self.password_digest = bcrypt.hashpw(kwargs.get("password_digest")).encode("utf8"),
  bcrypt.gensalt(rounds=13).decode("utf8")\<close>: the right-hand side is a pair whose first
  component calls \<^verbatim>\<open>hashpw\<close> with one argument and encodes the result, and whose second
  component decodes a fresh salt; the components are evaluated from left to right.
\<close>

definition User_init ::
  "bcrypt_module \<Rightarrow> datetime \<Rightarrow> (string \<rightharpoonup> pyval) \<Rightarrow> user \<Rightarrow> entropy \<Rightarrow> error + user \<times> entropy" where
  "User_init bc now kwargs self e =
     (let self = self\<lparr>first_name := kwargs_get kwargs ''first_name''\<rparr>;
          self = self\<lparr>last_name := kwargs_get kwargs ''last_name''\<rparr>;
          self = self\<lparr>username := kwargs_get kwargs ''username''\<rparr>
      in (case hashpw bc [kwargs_get kwargs ''password_digest''] of
            Inl err \<Rightarrow> Inl err
          | Inr h \<Rightarrow>
         (case encode_utf8 h of
            Inl err \<Rightarrow> Inl err
          | Inr hashed \<Rightarrow>
         (case gensalt bc 13 e of
            Inl err \<Rightarrow> Inl err
          | Inr (s, e') \<Rightarrow>
         (case decode_utf8 s of
            Inl err \<Rightarrow> Inl err
          | Inr salt \<Rightarrow>
              Inr (renew_session now (self\<lparr>password_digest := PTuple [hashed, salt]\<rparr>) e'))))))"

text \<open>\<^verbatim>\<open>User.verify_password\<close> (lines 66-70).\<close>

definition verify_password :: "bcrypt_module \<Rightarrow> user \<Rightarrow> pyval \<Rightarrow> error + pyval" where
  "verify_password bc self password =
     (case encode_utf8 password of
        Inl err \<Rightarrow> Inl err
      | Inr p \<Rightarrow> checkpw bc [p, password_digest self])"

text \<open>
  \<^verbatim>\<open>User.verify_session_token\<close> (lines 72-76). \<^verbatim>\<open>==\<close> between any value and a \<^verbatim>\<open>str\<close> is
  true exactly for an equal \<^verbatim>\<open>str\<close> and never raises; \<^verbatim>\<open>and\<close> reads the clock only when the
  tokens are equal.
\<close>

definition verify_session_token :: "datetime \<Rightarrow> user \<Rightarrow> pyval \<Rightarrow> bool" where
  "verify_session_token now self token =
     (if token = PStr (session_token self) then now < session_expiration self else False)"

text \<open>\<^verbatim>\<open>User.verify_update_token\<close> (lines 78-82).\<close>

definition verify_update_token :: "user \<Rightarrow> pyval \<Rightarrow> bool" where
  "verify_update_token self token = (token = PStr (update_token self))"

text \<open>\<^verbatim>\<open>User.serialize\<close> (lines 84-95).\<close>

definition User_serialize :: "user \<Rightarrow> error + pyval" where
  "User_serialize self =
     (case comprehension Post_call_serialize (posts self) of
        Inl err \<Rightarrow> Inl err
      | Inr ps \<Rightarrow>
          (case comprehension saved_recipe_serialize (saved_recipes self) of
             Inl err \<Rightarrow> Inl err
           | Inr rs \<Rightarrow>
               Inr (PDict
                 [(''id'', id_User self),
                  (''first_name'', first_name self),
                  (''last_name'', last_name self),
                  (''username'', username self),
                  (''posts'', PList ps),
                  (''saved_recipes'', PList rs)])))"

text \<open>\<^verbatim>\<open>User.simple_serialize\<close> (lines 97-106).\<close>

definition simple_serialize :: "user \<Rightarrow> pyval" where
  "simple_serialize self =
     PDict
       [(''id'', id_User self),
        (''first_name'', first_name self),
        (''last_name'', last_name self),
        (''username'', username self)]"

section \<open>Vocabulary of the specification\<close>

text \<open>
  The specification speaks of the keys of a serialized form, of a value "stored as a list"
  or "stored as a newline-joined string", and of the values the token generator yields on
  successive calls. These definitions follow its words; the theorems compare them with the
  functions above.
\<close>

fun dict_keys :: "pyval \<Rightarrow> string list option" where
  "dict_keys (PDict d) = Some (map fst d)"
| "dict_keys v = None"

text \<open>\<^verbatim>\<open>'\n'.join(ps)\<close>.\<close>

fun join_newline :: "string list \<Rightarrow> string" where
  "join_newline [] = []"
| "join_newline [p] = p"
| "join_newline (p # q # ps) = p @ newline # join_newline (q # ps)"

datatype stored = AsList "pyval list" | AsLines "string list"

fun stored_value :: "stored \<Rightarrow> pyval" where
  "stored_value (AsList xs) = PList xs"
| "stored_value (AsLines ps) = PStr (join_newline ps)"

fun normal_form :: "stored \<Rightarrow> pyval" where
  "normal_form (AsList xs) = PList xs"
| "normal_form (AsLines ps) = PList (map PStr ps)"

text \<open>
  Lines that were joined are a non-empty list of strings without a newline (joining no
  line at all gives the empty string, which is the joining of one empty line).
\<close>

fun well_formed :: "stored \<Rightarrow> bool" where
  "well_formed (AsList xs) = True"
| "well_formed (AsLines ps) = (ps \<noteq> [] \<and> list_all (\<lambda>p. newline \<notin> set p) ps)"

text \<open>The results of the first \<open>n\<close> calls of \<^verbatim>\<open>_urlsafe_base_64\<close>.\<close>

fun generated_tokens :: "nat \<Rightarrow> entropy \<Rightarrow> string list" where
  "generated_tokens 0 e = []"
| "generated_tokens (Suc n) e =
     (case urlsafe_base_64 e of (t, e') \<Rightarrow> t # generated_tokens n e')"

section \<open>Concrete states\<close>

text \<open>
  A recipe whose ingredients are the string \<^verbatim>\<open>"a\nb\nc"\<close> and whose instructions are a
  list; a user who saved it, has no posts, and whose two tokens are the SHA-1 of 64 zero
  bytes; a post; a creation request with every field the specification requires, and a
  \<^verbatim>\<open>bcrypt\<close> whose key derivation rejects every salt.
\<close>

definition example_recipe :: recipe where
  "example_recipe =
     \<lparr>id_Recipe = PInt 7, title = PStr ''Tea'', summary = PStr ''Hot'',
      ingredients = PStr [CHR ''a'', CHR 0x0A, CHR ''b'', CHR 0x0A, CHR ''c''],
      instructions = PList [PStr ''boil'', PStr ''steep''],
      image_url_Recipe = PNone\<rparr>"

definition example_user :: user where
  "example_user =
     \<lparr>id_User = PInt 1, first_name = PStr ''Alice'', last_name = PStr ''Liddell'',
      username = PStr ''alice'', password_digest = PStr ''digest'',
      image_url = PStr ''https://example.org/alice.png'',
      session_token = ''c8d7d0ef0eedfa82d2ea1aa592845b9a6d4b02b7'',
      session_expiration = 86400000000,
      update_token = ''c8d7d0ef0eedfa82d2ea1aa592845b9a6d4b02b7'',
      saved_recipes =
        [\<lparr>id_SavedRecipe = PInt 1, user_id = PInt 1, recipe_id = PInt 7,
          recipe = Some example_recipe\<rparr>],
      posts = []\<rparr>"

definition example_post :: post where
  "example_post =
     \<lparr>id_Post = PInt 3, title_Post = PStr ''Hello'', description = PStr ''First post'',
      user_id_Post = PInt 1, group_id = PInt 2\<rparr>"

definition example_request :: "string \<rightharpoonup> pyval" where
  "example_request =
     [''first_name'' \<mapsto> PStr ''Alice'', ''last_name'' \<mapsto> PStr ''Liddell'',
      ''username'' \<mapsto> PStr ''alice'', ''password'' \<mapsto> PStr ''hunter2'']"

definition example_bcrypt :: bcrypt_module where
  "example_bcrypt = bcrypt (\<lambda>password salt. None) (\<lambda>rounds salt. salt)"

text \<open>A random source that yields 64 times \<^verbatim>\<open>a\<close>, then \<^verbatim>\<open>b\<close>, then \<^verbatim>\<open>c\<close>, then only \<^verbatim>\<open>d\<close>.\<close>

definition example_entropy :: entropy where
  "example_entropy i =
     (if i < 64 then CHR ''a'' else if i < 128 then CHR ''b''
      else if i < 192 then CHR ''c'' else CHR ''d'')"

section \<open>The library model against published values\<close>

lemma sha1_abc: "sha1_hexdigest ''abc'' = ''a9993e364706816aba3e25717850c26c9cd0d89d''"
  by code_simp

lemma sha1_empty: "sha1_hexdigest [] = ''da39a3ee5e6b4b0d3255bfef95601890afd80709''"
  by code_simp

lemma sha1_two_blocks:
  "sha1_hexdigest ''abcdbcdecdefdefgefghfghighijhijkijkljklmklmnlmnomnopnopq''
     = ''84983e441c3bd26ebaae4aa1f95129e5e54670f1''"
  by code_simp

lemma length_hex32: "length (hex32 w) = 8"
  by (simp add: hex32_def)

lemma length_sha1_hexdigest: "length (sha1_hexdigest m) = 40"
  by (simp add: sha1_hexdigest_def length_hex32 split: prod.split)

lemma sha1_hexdigest_nonempty: "sha1_hexdigest m \<noteq> []"
  using length_sha1_hexdigest [of m] by auto

section \<open>Helper lemmas\<close>

lemma split_on_no_sep: "sep \<notin> set p \<Longrightarrow> split_on sep p = [p]"
  by (induction p) auto

lemma split_on_append_sep:
  "sep \<notin> set p \<Longrightarrow> split_on sep (p @ sep # r) = p # split_on sep r"
  by (induction p) auto

lemma split_on_join_newline:
  "ps \<noteq> [] \<Longrightarrow> list_all (\<lambda>p. newline \<notin> set p) ps \<Longrightarrow>
     split_on newline (join_newline ps) = ps"
proof (induction ps rule: join_newline.induct)
  case 1
  then show ?case by simp
next
  case (2 p)
  then show ?case by (simp add: split_on_no_sep)
next
  case (3 p q ps)
  then show ?case by (simp add: split_on_append_sep)
qed

lemma listified:
  "well_formed a \<Longrightarrow>
   (if isinstance_list (stored_value a) then Inr (stored_value a)
    else split_newline (stored_value a)) = Inr (normal_form a)"
  by (cases a) (simp_all add: split_on_join_newline)

lemma comprehension_posts:
  "comprehension Post_call_serialize ps = Inr ys \<Longrightarrow> ps = [] \<and> ys = []"
  by (cases ps) (simp_all add: Post_call_serialize_def)

lemma User_serialize_Inr:
  "User_serialize u = Inr v \<Longrightarrow>
     \<exists>rs. v = PDict [(''id'', id_User u), (''first_name'', first_name u),
                     (''last_name'', last_name u), (''username'', username u),
                     (''posts'', PList []), (''saved_recipes'', PList rs)]"
  by (auto simp: User_serialize_def split: sum.splits dest: comprehension_posts)

lemma User_serialize_posts:
  "posts u \<noteq> [] \<Longrightarrow> User_serialize u = Inl AttributeError"
  by (cases "posts u") (simp_all add: User_serialize_def Post_call_serialize_def)

lemma User_serialize_example:
  "User_serialize example_user =
     Inr (PDict
       [(''id'', PInt 1), (''first_name'', PStr ''Alice''), (''last_name'', PStr ''Liddell''),
        (''username'', PStr ''alice''), (''posts'', PList []),
        (''saved_recipes'', PList
           [PDict [(''id'', PInt 7), (''title'', PStr ''Tea''), (''summary'', PStr ''Hot''),
                   (''ingredients'', PList [PStr ''a'', PStr ''b'', PStr ''c'']),
                   (''instructions'', PList [PStr ''boil'', PStr ''steep''])]])])"
  by (simp add: User_serialize_def example_user_def example_recipe_def
      saved_recipe_serialize_def Recipe_serialize_def newline_def)

lemma sha1_zero_block:
  "sha1_hexdigest (map (\<lambda>i::nat. CHR 0x00) [0..<64])
     = ''c8d7d0ef0eedfa82d2ea1aa592845b9a6d4b02b7''"
  by code_simp

lemma sha1_a_block:
  "sha1_hexdigest (map (\<lambda>i::nat. CHR ''a'') [0..<64])
     = ''0098ba824b5c16427bd7a1122a5a442a25ec644d''"
  by code_simp

lemma sha1_b_block:
  "sha1_hexdigest (map (\<lambda>i::nat. CHR ''b'') [0..<64])
     = ''9d682ff9a7018603023176b8c12926c6a15510ee''"
  by code_simp

lemma sha1_c_block:
  "sha1_hexdigest (map (\<lambda>i::nat. CHR ''c'') [0..<64])
     = ''b29fcb5f41614b4ec81c87e4614ffe8b9ace1d4e''"
  by code_simp

lemma sha1_d_block:
  "sha1_hexdigest (map (\<lambda>i::nat. CHR ''d'') [0..<64])
     = ''7d4f9b6d084894fb8640dc55aab16ad0e021e4c8''"
  by code_simp

lemma example_entropy_blocks:
  "map example_entropy [0..<64] = map (\<lambda>i. CHR ''a'') [0..<64]"
  "map (\<lambda>i. example_entropy (i + 64)) [0..<64] = map (\<lambda>i. CHR ''b'') [0..<64]"
  "map (\<lambda>i. example_entropy (i + 64 + 64)) [0..<64] = map (\<lambda>i. CHR ''c'') [0..<64]"
  "map (\<lambda>i. example_entropy (i + 64 + 64 + 64)) [0..<64] = map (\<lambda>i. CHR ''d'') [0..<64]"
  by (rule map_cong [OF refl], simp add: example_entropy_def)+

text \<open>
  \<^verbatim>\<open>renew_session\<close> in one step: the session token is the digest of the next 64 random
  bytes, the update token the digest of the 64 after them, and nothing else changes.
\<close>

lemma renew_session_eq:
  "renew_session now u e =
     (u\<lparr>session_token := sha1_hexdigest (map e [0..<64]),
        session_expiration := now + 86400000000,
        update_token := sha1_hexdigest (map (\<lambda>i. e (i + 64)) [0..<64])\<rparr>,
      \<lambda>i. e (i + 64 + 64))"
  by (simp add: renew_session_def urlsafe_base_64_def urandom_def Let_def timedelta_days_def
      del: upt_Suc upt_rec_numeral)

lemma generated_tokens_4:
  "generated_tokens 4 e =
     [sha1_hexdigest (map e [0..<64]),
      sha1_hexdigest (map (\<lambda>i. e (i + 64)) [0..<64]),
      sha1_hexdigest (map (\<lambda>i. e (i + 64 + 64)) [0..<64]),
      sha1_hexdigest (map (\<lambda>i. e (i + 64 + 64 + 64)) [0..<64])]"
proof -
  have "generated_tokens 4 e = generated_tokens (Suc (Suc (Suc (Suc 0)))) e"
    by (simp add: numeral_eq_Suc)
  then show ?thesis
    by (simp add: urlsafe_base_64_def urandom_def del: upt_Suc upt_rec_numeral)
qed


text \<open>The exceptions of the calls on line 46.\<close>

lemma encode_utf8_error: "encode_utf8 h = Inl err \<Longrightarrow> err = AttributeError"
  by (cases h) simp_all

lemma decode_utf8_error:
  "decode_utf8 s = Inl err \<Longrightarrow> err = AttributeError \<or> err = UnicodeDecodeError"
  by (cases s) (simp_all split: if_splits)

lemma bcrypt_hashpw_error:
  "bcrypt_hashpw kdf args = Inl err \<Longrightarrow> err = TypeError \<or> err = ValueError"
  by (auto simp: bcrypt_hashpw_def split: list.splits pyval.splits option.splits)

lemma bcrypt_gensalt_error:
  "bcrypt_gensalt enc rounds e = Inl err \<Longrightarrow> err = ValueError"
  by (auto simp: bcrypt_gensalt_def split: if_splits prod.splits)

text \<open>
  \<^verbatim>\<open>bcrypt.hashpw\<close> rejects \<^verbatim>\<open>None\<close> as a password whatever the other arguments of the
  call are.
\<close>

lemma bcrypt_hashpw_None: "bcrypt_hashpw kdf (PNone # args) = Inl TypeError"
  by (simp add: bcrypt_hashpw_def)

text \<open>
  Every exception of \<^verbatim>\<open>User.__init__\<close> is raised by one of the four calls of line 46, for
  every implementation of the hashing calls; and which one depends on the request only
  through the entry \<^verbatim>\<open>password_digest\<close>.
\<close>

lemma User_init_error:
  assumes "User_init bc now kwargs self e = Inl err"
  shows "hashpw bc [kwargs_get kwargs ''password_digest''] = Inl err
         \<or> gensalt bc 13 e = Inl err \<or> err = AttributeError \<or> err = UnicodeDecodeError"
  using assms
  by (auto simp: User_init_def Let_def split: sum.splits prod.splits
      dest: encode_utf8_error decode_utf8_error)

lemma User_init_error_cong:
  assumes "kwargs' ''password_digest'' = kwargs ''password_digest''"
  shows "User_init bc now kwargs' self e = Inl err
           \<longleftrightarrow> User_init bc now kwargs self e = Inl err"
proof -
  from assms
  have "kwargs_get kwargs' ''password_digest'' = kwargs_get kwargs ''password_digest''"
    by (simp add: kwargs_get_def)
  then show ?thesis
    by (simp add: User_init_def Let_def split: sum.split prod.split)
qed

lemma generated_tokens_example:
  "generated_tokens 4 example_entropy =
     [''0098ba824b5c16427bd7a1122a5a442a25ec644d'',
      ''9d682ff9a7018603023176b8c12926c6a15510ee'',
      ''b29fcb5f41614b4ec81c87e4614ffe8b9ace1d4e'',
      ''7d4f9b6d084894fb8640dc55aab16ad0e021e4c8'']"
  unfolding generated_tokens_4 example_entropy_blocks
    sha1_a_block sha1_b_block sha1_c_block sha1_d_block
  by (rule refl)

section \<open>Creation\<close>

text \<open>
  C1. The claim: for every valid creation input with plaintext password
  \<open>p\<close>, Create stores a salted digest different from \<open>p\<close>, \<^verbatim>\<open>VerifyPassword(p)\<close> is true and
  \<^verbatim>\<open>VerifyPassword(q)\<close> is false for every other \<open>q\<close>. The code: line 46 closes the
  parenthesis of \<^verbatim>\<open>bcrypt.hashpw\<close> after the password, so the function is called with one
  argument instead of two, and \<^verbatim>\<open>User.__init__\<close> raises \<^verbatim>\<open>TypeError\<close> for every request,
  whatever the key derivation: no digest is ever stored.
\<close>

theorem User_init_raises_TypeError:
  "User_init (bcrypt kdf enc) now kwargs self e = Inl TypeError"
  by (simp add: User_init_def bcrypt_def bcrypt_hashpw_def Let_def
      split: pyval.split list.split)

text \<open>
  C6. The claim: every operation keeps the session token
  and the update token non-empty, the expiration is set whenever a session token is
  issued, and Create issues a session, so that the new user's token verifies at once.
  \<^verbatim>\<open>renew_session\<close> does its part: both tokens are non-empty, the expiration is set in the
  same call, and the new token verifies at the time of the call. Create never reaches its
  call of \<^verbatim>\<open>renew_session\<close>: on the request of \<open>example_request\<close> it raises \<^verbatim>\<open>TypeError\<close>
  and no user exists whose token could verify.
\<close>

theorem renew_session_invariant_and_User_init_raises:
  "(case renew_session now u e of (u', e') \<Rightarrow>
      session_token u' \<noteq> [] \<and> update_token u' \<noteq> []
      \<and> session_expiration u' = now + 86400000000
      \<and> verify_session_token now u' (PStr (session_token u')))
   \<and> User_init example_bcrypt now example_request u e = Inl TypeError"
  by (simp add: renew_session_def urlsafe_base_64_def urandom_def Let_def timedelta_days_def
      verify_session_token_def sha1_hexdigest_nonempty example_bcrypt_def
      User_init_def bcrypt_def bcrypt_hashpw_def split: pyval.split list.split)

text \<open>
  C8 as stated. The claim: a creation request with a required field missing fails with
  \<^verbatim>\<open>ValidationError\<close>. Counterexample: the example request without its password. It has
  no entry \<^verbatim>\<open>password_digest\<close>, the key that line 46 reads, so \<^verbatim>\<open>kwargs.get\<close> gives
  \<^verbatim>\<open>None\<close> and \<^verbatim>\<open>bcrypt.hashpw\<close> raises \<^verbatim>\<open>TypeError\<close>, as it does for \<^verbatim>\<open>None\<close> in a call with
  two arguments as well.
\<close>

theorem User_init_missing_password_counterexample:
  "User_init example_bcrypt 0 (example_request(''password'' := None)) example_user
     (\<lambda>i. CHR 0x00) = Inl TypeError
   \<and> hashpw example_bcrypt [PNone, PBytes ''$2b$13$''] = Inl TypeError"
  by (simp add: User_init_def example_bcrypt_def bcrypt_def bcrypt_hashpw_None Let_def
      kwargs_get_def example_request_def)

text \<open>
  C8 as amended: Create does not validate its request and raises no exception of its own.
  For every implementation \<open>bc\<close> of the hashing calls: an exception of Create is one that
  \<^verbatim>\<open>hashpw\<close>, \<^verbatim>\<open>encode\<close>, \<^verbatim>\<open>gensalt\<close> or \<^verbatim>\<open>decode\<close> raised on line 46; two requests with the
  same entry \<^verbatim>\<open>password_digest\<close> fail alike, so a missing first name, last name or username
  changes neither whether Create fails nor the exception; and a request without the
  password hands \<^verbatim>\<open>None\<close> to \<^verbatim>\<open>hashpw\<close> and fails with whatever \<^verbatim>\<open>hashpw\<close> raises for it. With
  the published \<^verbatim>\<open>bcrypt\<close>, whose functions raise \<^verbatim>\<open>TypeError\<close> and \<^verbatim>\<open>ValueError\<close> only, no
  request fails with \<^verbatim>\<open>ValidationError\<close>.
\<close>

theorem User_init_does_not_validate:
  "(User_init bc now kwargs self e = Inl err \<longrightarrow>
       hashpw bc [kwargs_get kwargs ''password_digest''] = Inl err
       \<or> gensalt bc 13 e = Inl err \<or> err = AttributeError \<or> err = UnicodeDecodeError)
   \<and> (kwargs' ''password_digest'' = kwargs ''password_digest'' \<longrightarrow>
       (User_init bc now kwargs' self e = Inl err
          \<longleftrightarrow> User_init bc now kwargs self e = Inl err))
   \<and> (kwargs ''password_digest'' = None \<longrightarrow> hashpw bc [PNone] = Inl err \<longrightarrow>
       User_init bc now kwargs self e = Inl err)
   \<and> User_init (bcrypt kdf enc) now kwargs self e \<noteq> Inl ValidationError"
proof (intro conjI impI)
  assume "User_init bc now kwargs self e = Inl err"
  then show "hashpw bc [kwargs_get kwargs ''password_digest''] = Inl err
       \<or> gensalt bc 13 e = Inl err \<or> err = AttributeError \<or> err = UnicodeDecodeError"
    by (rule User_init_error)
next
  assume "kwargs' ''password_digest'' = kwargs ''password_digest''"
  then show "User_init bc now kwargs' self e = Inl err
          \<longleftrightarrow> User_init bc now kwargs self e = Inl err"
    by (rule User_init_error_cong)
next
  assume "kwargs ''password_digest'' = None" and "hashpw bc [PNone] = Inl err"
  then show "User_init bc now kwargs self e = Inl err"
    by (simp add: User_init_def Let_def kwargs_get_def)
next
  show "User_init (bcrypt kdf enc) now kwargs self e \<noteq> Inl ValidationError"
  proof
    assume "User_init (bcrypt kdf enc) now kwargs self e = Inl ValidationError"
    then have
      "hashpw (bcrypt kdf enc) [kwargs_get kwargs ''password_digest''] = Inl ValidationError
         \<or> gensalt (bcrypt kdf enc) 13 e = Inl ValidationError"
      by (auto dest: User_init_error)
    then show False
      by (auto simp: bcrypt_def dest: bcrypt_hashpw_error bcrypt_gensalt_error)
  qed
qed

text \<open>
  The example request without its password, and the empty request, in which the first
  name, the last name, the username and the password are all missing.
\<close>

theorem User_init_does_not_validate_witness:
  "(example_request(''password'' := None)) ''password_digest'' = None
   \<and> Map.empty ''password_digest'' = (example_request(''password'' := None)) ''password_digest''
   \<and> hashpw example_bcrypt [PNone] = Inl TypeError
   \<and> User_init example_bcrypt 0 (example_request(''password'' := None)) example_user
        (\<lambda>i. CHR 0x00) = Inl TypeError
   \<and> User_init example_bcrypt 0 Map.empty example_user (\<lambda>i. CHR 0x00) = Inl TypeError
   \<and> User_init example_bcrypt 0 (example_request(''password'' := None)) example_user
        (\<lambda>i. CHR 0x00) \<noteq> Inl ValidationError"
  using User_init_does_not_validate
    [where bc = example_bcrypt and now = 0
       and kwargs = "example_request(''password'' := None)"
       and kwargs' = Map.empty and self = example_user and e = "\<lambda>i. CHR 0x00"
       and err = TypeError and kdf = "\<lambda>password salt. None" and enc = "\<lambda>rounds salt. salt"]
  by (simp add: example_bcrypt_def example_request_def bcrypt_def bcrypt_hashpw_None)

section \<open>Verification of tokens\<close>

text \<open>
  C2. For every user state and every string \<open>t\<close>, \<^verbatim>\<open>verify_session_token(t)\<close> is
  true exactly when \<open>t\<close> equals the stored session token and the current time is strictly
  before the stored expiration; at the expiration itself it is false for every argument.
  The result is a truth value: the function has no exception to raise.
\<close>

theorem verify_session_token_iff:
  "(verify_session_token now u (PStr t)
      \<longleftrightarrow> t = session_token u \<and> now < session_expiration u)
   \<and> \<not> verify_session_token (session_expiration u) u v"
  by (simp add: verify_session_token_def)

text \<open>
  C5. For every user state and every string \<open>t\<close>, \<^verbatim>\<open>verify_update_token(t)\<close> is
  true exactly when \<open>t\<close> equals the stored update token. The function reads neither the
  clock nor the expiration: changing the stored expiration changes no result.
\<close>

theorem verify_update_token_iff:
  "(verify_update_token u (PStr t) \<longleftrightarrow> t = update_token u)
   \<and> verify_update_token (u\<lparr>session_expiration := x\<rparr>) v = verify_update_token u v"
  by (simp add: verify_update_token_def)

section \<open>Renewal\<close>



text \<open>
  C7. Assume the token generator yields distinct values on the four calls
  that two renewals make. Then two renewals in sequence, at any times, produce two
  different session tokens and two different update tokens, and after the second renewal
  the first session token fails \<^verbatim>\<open>verify_session_token\<close> at every time and the first
  update token fails \<^verbatim>\<open>verify_update_token\<close>.
\<close>

theorem renew_session_twice:
  assumes "distinct (generated_tokens 4 e)"
  shows "(case renew_session now1 u e of (u1, e1) \<Rightarrow>
          (case renew_session now2 u1 e1 of (u2, e2) \<Rightarrow>
             session_token u1 \<noteq> session_token u2
             \<and> update_token u1 \<noteq> update_token u2
             \<and> \<not> verify_session_token now3 u2 (PStr (session_token u1))
             \<and> \<not> verify_update_token u2 (PStr (update_token u1))))"
  using assms unfolding generated_tokens_4
  by (simp add: renew_session_eq verify_session_token_def verify_update_token_def
      del: upt_Suc upt_rec_numeral)

theorem renew_session_twice_witness:
  "distinct (generated_tokens 4 example_entropy)
   \<and> (case renew_session 0 example_user example_entropy of (u1, e1) \<Rightarrow>
        (case renew_session 5 u1 e1 of (u2, e2) \<Rightarrow>
           session_token u1 \<noteq> session_token u2
           \<and> update_token u1 \<noteq> update_token u2
           \<and> \<not> verify_session_token 6 u2 (PStr (session_token u1))
           \<and> \<not> verify_update_token u2 (PStr (update_token u1))))"
proof -
  have d: "distinct (generated_tokens 4 example_entropy)"
    unfolding generated_tokens_example by simp
  show ?thesis
    by (intro conjI d renew_session_twice [OF d])
qed

section \<open>Serialization\<close>

text \<open>
  C4. For every user state, whatever \<^verbatim>\<open>serialize\<close> returns is a dictionary
  without the keys \<^verbatim>\<open>password_digest\<close>, \<^verbatim>\<open>session_token\<close> and \<^verbatim>\<open>update_token\<close>;
  \<^verbatim>\<open>simple_serialize\<close> returns a dictionary with exactly the keys \<^verbatim>\<open>id\<close>, \<^verbatim>\<open>first_name\<close>,
  \<^verbatim>\<open>last_name\<close>, \<^verbatim>\<open>username\<close>; and neither result depends on the password digest, the
  session token or the update token of the user.
\<close>

theorem serialize_omits_credentials:
  "(\<forall>v. User_serialize u = Inr v \<longrightarrow>
      (\<exists>ks. dict_keys v = Some ks \<and> ''password_digest'' \<notin> set ks
            \<and> ''session_token'' \<notin> set ks \<and> ''update_token'' \<notin> set ks))
   \<and> dict_keys (simple_serialize u) = Some [''id'', ''first_name'', ''last_name'', ''username'']
   \<and> User_serialize (u\<lparr>password_digest := pd, session_token := st, update_token := ut\<rparr>)
       = User_serialize u
   \<and> simple_serialize (u\<lparr>password_digest := pd, session_token := st, update_token := ut\<rparr>)
       = simple_serialize u"
proof -
  have "\<exists>ks. dict_keys v = Some ks \<and> ''password_digest'' \<notin> set ks
            \<and> ''session_token'' \<notin> set ks \<and> ''update_token'' \<notin> set ks"
    if "User_serialize u = Inr v" for v
    using User_serialize_Inr [OF that] by auto
  moreover have "dict_keys (simple_serialize u)
                   = Some [''id'', ''first_name'', ''last_name'', ''username'']"
    by (simp add: simple_serialize_def)
  moreover have
    "User_serialize (u\<lparr>password_digest := pd, session_token := st, update_token := ut\<rparr>)
       = User_serialize u"
    by (simp add: User_serialize_def cong: sum.case_cong)
  moreover have
    "simple_serialize (u\<lparr>password_digest := pd, session_token := st, update_token := ut\<rparr>)
       = simple_serialize u"
    by (simp add: simple_serialize_def)
  ultimately show ?thesis
    by blast
qed

theorem serialize_omits_credentials_witness:
  "User_serialize example_user =
     Inr (PDict
       [(''id'', PInt 1), (''first_name'', PStr ''Alice''), (''last_name'', PStr ''Liddell''),
        (''username'', PStr ''alice''), (''posts'', PList []),
        (''saved_recipes'', PList
           [PDict [(''id'', PInt 7), (''title'', PStr ''Tea''), (''summary'', PStr ''Hot''),
                   (''ingredients'', PList [PStr ''a'', PStr ''b'', PStr ''c'']),
                   (''instructions'', PList [PStr ''boil'', PStr ''steep''])]])])
   \<and> (\<exists>ks. dict_keys (PDict
       [(''id'', PInt 1), (''first_name'', PStr ''Alice''), (''last_name'', PStr ''Liddell''),
        (''username'', PStr ''alice''), (''posts'', PList []),
        (''saved_recipes'', PList
           [PDict [(''id'', PInt 7), (''title'', PStr ''Tea''), (''summary'', PStr ''Hot''),
                   (''ingredients'', PList [PStr ''a'', PStr ''b'', PStr ''c'']),
                   (''instructions'', PList [PStr ''boil'', PStr ''steep''])]])]) = Some ks
         \<and> ''password_digest'' \<notin> set ks \<and> ''session_token'' \<notin> set ks
         \<and> ''update_token'' \<notin> set ks)"
  using serialize_omits_credentials [of example_user] User_serialize_example
  by simp

text \<open>
  C10. The claim: for every user state the full serialization has exactly the
  keys \<^verbatim>\<open>id\<close>, \<^verbatim>\<open>first_name\<close>, \<^verbatim>\<open>last_name\<close>, \<^verbatim>\<open>username\<close>, \<^verbatim>\<open>posts\<close>, \<^verbatim>\<open>saved_recipes\<close>. The
  code: \<^verbatim>\<open>serialize\<close> calls \<^verbatim>\<open>post.serialize()\<close> for every post, and class \<^verbatim>\<open>Post\<close> has no such
  method; for the example user with one post the call raises \<^verbatim>\<open>AttributeError\<close> and there
  is no serialization at all.
\<close>

theorem User_serialize_with_post_raises:
  "User_serialize (example_user\<lparr>posts := [example_post]\<rparr>) = Inl AttributeError"
  by (simp add: User_serialize_def Post_call_serialize_def)

text \<open>
  C9. \<^verbatim>\<open>Recipe.serialize\<close> puts ingredients and instructions in list form: a
  value stored as a list is returned as that list, a value stored as newline-joined lines is
  returned as the list of those lines, each field on its own.
\<close>

theorem Recipe_serialize_normalizes:
  assumes "well_formed a" and "well_formed b"
    and "ingredients r = stored_value a" and "instructions r = stored_value b"
  shows "Recipe_serialize r =
    Inr (PDict [(''id'', id_Recipe r), (''title'', title r), (''summary'', summary r),
                (''ingredients'', normal_form a), (''instructions'', normal_form b)])"
  unfolding Recipe_serialize_def assms(3,4)
  by (simp add: listified [OF assms(1)] listified [OF assms(2)])

theorem Recipe_serialize_normalizes_witness:
  "well_formed (AsLines [''a'', ''b'', ''c''])
   \<and> well_formed (AsList [PStr ''boil'', PStr ''steep''])
   \<and> ingredients example_recipe = PStr [CHR ''a'', CHR 0x0A, CHR ''b'', CHR 0x0A, CHR ''c'']
   \<and> instructions example_recipe = PList [PStr ''boil'', PStr ''steep'']
   \<and> Recipe_serialize example_recipe =
      Inr (PDict [(''id'', PInt 7), (''title'', PStr ''Tea''), (''summary'', PStr ''Hot''),
                  (''ingredients'', PList [PStr ''a'', PStr ''b'', PStr ''c'']),
                  (''instructions'', PList [PStr ''boil'', PStr ''steep''])])"
  using Recipe_serialize_normalizes
    [of "AsLines [''a'', ''b'', ''c'']" "AsList [PStr ''boil'', PStr ''steep'']" example_recipe]
  by (simp add: example_recipe_def newline_def)

end
